theory Spec2Isabelle
  imports Main
begin

section \<open>Data model of the synchronous client\<close>

text \<open>
  The development follows \<^verbatim>\<open>openrobot/api_wrapper/_sync.py\<close>: the constructor of
  \<^verbatim>\<open>SyncClient\<close>, \<^verbatim>\<open>_get_authorization_headers\<close> and \<^verbatim>\<open>_request\<close>.
  Python dictionaries whose order does not matter are association lists, exceptions are
  values of the type \<open>error\<close>, and the HTTP server is a function from the number of the
  attempt to what \<^verbatim>\<open>requests\<close> hands back for it.
\<close>

datatype json =
    JNull
  | JBool bool
  | JNum int
  | JStr string
  | JArr "json list"
  | JObj "(string \<times> json) list"

text \<open>
  A response of \<^verbatim>\<open>requests\<close>: its status code, its headers, and what \<^verbatim>\<open>r.json()\<close>
  gives (\<open>None\<close> when the body is not JSON and \<^verbatim>\<open>r.json()\<close> raises).
\<close>

record response =
  status_code :: int
  headers :: "(string \<times> string) list"
  r_json :: "json option"

datatype error =
    NoTokenProvided
  | KeyError string
  | AttributeError string
  | TypeError string
  | ValueError
  | OverflowError
  | UnboundLocalError string
  | ConnectionError
  | JSONDecodeError
  | Forbidden response json
  | BadRequest response json
  | InternalServerError response json
  | TooManyRequests response json
  | OpenRobotAPIError json response

record client =
  token :: string
  handle_ratelimit :: bool
  tries :: "int option"

section \<open>Construction\<close>

text \<open>
  \<^verbatim>\<open>__init__(self, token='I-Am-Testing', *, ignore_warning=False, handle_ratelimit=True, tries=5)\<close>.
  The token argument is \<open>None\<close> for Python's \<^verbatim>\<open>None\<close>. \<^verbatim>\<open>get_token_from_file\<close> lives in
  \<^verbatim>\<open>utils\<close>, outside this file; the value it returns is the parameter \<open>file_token\<close>.
  The result is the client together with the warnings emitted.
\<close>

definition truthy :: "string option \<Rightarrow> bool" where
  "truthy t = (case t of None \<Rightarrow> False | Some s \<Rightarrow> s \<noteq> [])"

definition testing_warning :: string where
  "testing_warning = ''Using I-Am-Testing token will only let you 5 requests/day (UTC based, will reset on 00:00 UTC) for all `/api` methods and will raise an `openrobot.api_wrapper.error.Forbidden` after you have reached your limit.''"

definition init ::
  "string option \<Rightarrow> bool \<Rightarrow> bool \<Rightarrow> int option \<Rightarrow> string option \<Rightarrow> error + (client \<times> string list)" where
  "init tok ignore_warning hr tr file_token =
     (let tok' = (if truthy tok then tok else file_token) in
      case tok' of
        None \<Rightarrow> Inl NoTokenProvided
      | Some s \<Rightarrow>
          if s = [] then Inl NoTokenProvided
          else Inr (\<lparr>token = s, handle_ratelimit = hr, tries = tr\<rparr>,
                    if s = ''I-Am-Testing'' \<and> \<not> ignore_warning then [testing_warning] else []))"

section \<open>Authorization headers\<close>

text \<open>\<^verbatim>\<open>_get_authorization_headers(self)\<close> with its defaults: \<^verbatim>\<open>{'Authorization': token}\<close>.\<close>

definition get_authorization_headers :: "client \<Rightarrow> (string \<times> string) list" where
  "get_authorization_headers c = [(''Authorization'', token c)]"

text \<open>
  What the caller passed as \<^verbatim>\<open>headers=\<close>: nothing, a dictionary, or a value that is not a
  dictionary (with its truth value; \<^verbatim>\<open>None\<close> is \<open>NotADict False\<close>).
\<close>

datatype headers_arg = Absent | NotADict bool | Dict "(string \<times> string) list"

definition arg_truthy :: "headers_arg \<Rightarrow> bool" where
  "arg_truthy h = (case h of Absent \<Rightarrow> False | NotADict b \<Rightarrow> b | Dict d \<Rightarrow> d \<noteq> [])"

definition is_dict :: "headers_arg \<Rightarrow> bool" where
  "is_dict h = (case h of Dict d \<Rightarrow> True | _ \<Rightarrow> False)"

text \<open>\<^verbatim>\<open>d.update(e)\<close>: the entries of \<open>e\<close> replace those of \<open>d\<close> with the same key.\<close>

definition dict_update :: "(string \<times> string) list \<Rightarrow> (string \<times> string) list \<Rightarrow> (string \<times> string) list" where
  "dict_update d e = filter (\<lambda>kv. fst kv \<notin> set (map fst e)) d @ e"

text \<open>
  Lines 74 to 79. In the first branch \<^verbatim>\<open>kwargs.pop('headers')\<close> removes the entry, so the
  slot read by \<^verbatim>\<open>kwargs['headers']\<close> on the next line is the emptied one.
\<close>

definition merge_headers :: "client \<Rightarrow> headers_arg \<Rightarrow> error + (string \<times> string) list" where
  "merge_headers c h =
     (let hs = get_authorization_headers c in
      if arg_truthy h \<and> is_dict h then
        (let hdr = h; slot = Absent in
         case slot of
           Absent \<Rightarrow> Inl (KeyError ''headers'')
         | NotADict b \<Rightarrow> Inl (AttributeError ''update'')
         | Dict d \<Rightarrow> Inr (dict_update d hs))
      else Inr hs)"

section \<open>URL normalisation\<close>

definition startswith :: "string \<Rightarrow> string \<Rightarrow> bool" where
  "startswith s p = (take (length p) s = p)"

text \<open>Lines 83 to 89: the two slices.\<close>

definition strip_target :: "string \<Rightarrow> string" where
  "strip_target url =
     (let u1 = (if \<not> startswith url ''/'' then drop 1 url else url);
          u2 = (if \<not> startswith u1 ''api/'' then drop 4 u1 else u1)
      in u2)"

text \<open>
  \<^verbatim>\<open>re.match(r'^http[s]?://[api.openrobot.xyz|lyrics.ayomerdeka.com]/', url)\<close>: the brackets
  are a character class, so after the scheme the pattern asks for one character of the
  class and then a slash.
\<close>

definition host_class :: string where
  "host_class = ''api.openrobot.xyz|lyrics.ayomerdeka.com''"

definition class_then_slash :: "string \<Rightarrow> bool" where
  "class_then_slash s = (case s of c # d # _ \<Rightarrow> c \<in> set host_class \<and> d = CHR ''/'' | _ \<Rightarrow> False)"

definition url_regex_match :: "string \<Rightarrow> bool" where
  "url_regex_match u =
     (if startswith u ''https://'' then class_then_slash (drop 8 u)
      else if startswith u ''http://'' then class_then_slash (drop 7 u)
      else False)"

definition base_url :: string where
  "base_url = ''https://api.openrobot.xyz/api''"

text \<open>Lines 91 to 94, on the stripped target and the truth value of \<^verbatim>\<open>no_url_regex\<close>.\<close>

definition check_url :: "string \<Rightarrow> bool \<Rightarrow> error + string" where
  "check_url u no_url_regex =
     (if \<not> url_regex_match u \<and> \<not> no_url_regex then Inr (base_url @ u)
      else Inl (TypeError ''URL is not a valid HTTP/HTTPs URL.''))"

text \<open>
  The keyword arguments of \<^verbatim>\<open>_request\<close>: the four it reads itself and the rest
  (\<^verbatim>\<open>params\<close>, \<^verbatim>\<open>data\<close>, \<^verbatim>\<open>files\<close>), handed to \<^verbatim>\<open>requests\<close> untouched.
\<close>

record kwargs =
  kw_headers :: headers_arg
  kw_return_on :: "int list"
  kw_raw :: bool
  kw_no_url_regex :: bool
  kw_rest :: "(string \<times> string) list"

text \<open>What is handed to \<^verbatim>\<open>s.request(method, url, **kwargs)\<close>.\<close>

record request =
  rq_method :: string
  rq_url :: string
  rq_headers :: "(string \<times> string) list"
  rq_rest :: "(string \<times> string) list"

text \<open>Lines 72 to 94: everything \<^verbatim>\<open>_request\<close> does before the loop.\<close>

definition prepare :: "client \<Rightarrow> string \<Rightarrow> string \<Rightarrow> kwargs \<Rightarrow> error + request" where
  "prepare c method url kw =
     (case merge_headers c (kw_headers kw) of
        Inl e \<Rightarrow> Inl e
      | Inr hs \<Rightarrow>
          (case check_url (strip_target url) (kw_no_url_regex kw) of
             Inl e \<Rightarrow> Inl e
           | Inr u \<Rightarrow> Inr \<lparr>rq_method = method, rq_url = u, rq_headers = hs, rq_rest = kw_rest kw\<rparr>))"

section \<open>Reading the \<^verbatim>\<open>Retry-After\<close> header\<close>

text \<open>
  \<^verbatim>\<open>r.headers\<close> is a case-insensitive dictionary: a key is found whatever its case.
  The list holds the entries of that dictionary, so its names differ even when case is
  ignored; header names are ASCII.
\<close>

definition lower_char :: "char \<Rightarrow> char" where
  "lower_char c =
     (case map_of (zip ''ABCDEFGHIJKLMNOPQRSTUVWXYZ'' ''abcdefghijklmnopqrstuvwxyz'') c of
        None \<Rightarrow> c
      | Some d \<Rightarrow> d)"

definition header_lookup :: "(string \<times> string) list \<Rightarrow> string \<Rightarrow> string option" where
  "header_lookup hs k = map_of (map (\<lambda>(a, b). (map lower_char a, b)) hs) (map lower_char k)"

text \<open>
  \<^verbatim>\<open>int(s)\<close> on a string, base ten: white space around, one optional sign, decimal digits
  with single underscores between them, and no more digits than the interpreter's limit
  (\<^verbatim>\<open>sys.int_info.default_max_str_digits\<close>, 4300). \<open>None\<close> is Python's \<^verbatim>\<open>ValueError\<close>.
\<close>

definition is_space :: "char \<Rightarrow> bool" where
  "is_space c = (c \<in> set [CHR 0x09, CHR 0x0A, CHR 0x0B, CHR 0x0C, CHR 0x0D,
                            CHR 0x1C, CHR 0x1D, CHR 0x1E, CHR 0x1F, CHR 0x20, CHR 0x85, CHR 0xA0])"

definition strip_space :: "string \<Rightarrow> string" where
  "strip_space s = rev (dropWhile is_space (rev (dropWhile is_space s)))"

definition digit_value :: "char \<Rightarrow> int option" where
  "digit_value c = map_of (zip ''0123456789'' [0, 1, 2, 3, 4, 5, 6, 7, 8, 9]) c"

definition is_digit :: "char \<Rightarrow> bool" where
  "is_digit c = (digit_value c \<noteq> None)"

fun digits_ok :: "string \<Rightarrow> bool" where
  "digits_ok [] = False"
| "digits_ok [c] = is_digit c"
| "digits_ok (c # d # cs) =
     (is_digit c \<and> (if d = CHR ''_'' then digits_ok cs else digits_ok (d # cs)))"

fun digits_to_int :: "int \<Rightarrow> string \<Rightarrow> int" where
  "digits_to_int acc [] = acc"
| "digits_to_int acc (c # cs) =
     (case digit_value c of
        None \<Rightarrow> digits_to_int acc cs
      | Some v \<Rightarrow> digits_to_int (10 * acc + v) cs)"

definition py_int :: "string \<Rightarrow> int option" where
  "py_int s =
     (let t = strip_space s;
          neg = (case t of c # _ \<Rightarrow> c = CHR ''-'' | [] \<Rightarrow> False);
          body = (case t of c # b \<Rightarrow> if c = CHR ''-'' \<or> c = CHR ''+'' then b else t | [] \<Rightarrow> t)
      in if digits_ok body \<and> length (filter is_digit body) \<le> 4300
         then Some (if neg then - digits_to_int 0 body else digits_to_int 0 body)
         else None)"

section \<open>One pass of the loop body\<close>

datatype result = Decoded json | Raw response

datatype step = Return result | Raise error | Retry int

text \<open>
  Lines 104 to 136, for a response \<open>r\<close> whose body decoded to \<open>js\<close>. \<open>Retry n\<close> stands
  for the branch that went through \<^verbatim>\<open>time.sleep(n)\<close> and falls out of the \<^verbatim>\<open>if\<close> chain.
  The \<^verbatim>\<open>except KeyError\<close> around the sleep catches the missing header only, so the errors
  of \<^verbatim>\<open>int\<close> and of \<^verbatim>\<open>time.sleep\<close> leave the call.
\<close>

text \<open>
  \<^verbatim>\<open>time.sleep(n)\<close> on an integer: the length is first turned into nanoseconds in 64 bits,
  which raises \<^verbatim>\<open>OverflowError\<close> beyond 9223372036 seconds either way; a negative length
  then raises \<^verbatim>\<open>ValueError\<close>. \<open>None\<close> means that the call slept and returned.
\<close>

definition sleep :: "int \<Rightarrow> error option" where
  "sleep n =
     (if n < - 9223372036 \<or> 9223372036 < n then Some OverflowError
      else if n < 0 then Some ValueError
      else None)"

definition deliver :: "bool \<Rightarrow> response \<Rightarrow> json \<Rightarrow> result" where
  "deliver raw r js = (if raw then Raw r else Decoded js)"

definition handle_429 :: "bool \<Rightarrow> response \<Rightarrow> json \<Rightarrow> step" where
  "handle_429 hr r js =
     (if \<not> hr then Raise (TooManyRequests r js)
      else
        (case header_lookup (headers r) ''Retry-After'' of
           None \<Rightarrow> Raise (KeyError ''Retry-After header is not present.'')
         | Some v \<Rightarrow>
             (case py_int v of
                None \<Rightarrow> Raise ValueError
              | Some n \<Rightarrow>
                  (case sleep n of
                     Some e \<Rightarrow> Raise e
                   | None \<Rightarrow> Retry n))))"

definition classify :: "bool \<Rightarrow> int list \<Rightarrow> bool \<Rightarrow> response \<Rightarrow> json \<Rightarrow> step" where
  "classify hr return_on raw r js =
     (if status_code r \<in> set return_on then Return (deliver raw r js)
      else if status_code r = 403 then Raise (Forbidden r js)
      else if status_code r = 400 then Raise (BadRequest r js)
      else if status_code r = 500 then Raise (InternalServerError r js)
      else if status_code r = 429 then handle_429 hr r js
      else if 200 \<le> status_code r \<and> status_code r < 300 then Return (deliver raw r js)
      else Raise (OpenRobotAPIError js r))"

section \<open>The retry loop and \<^verbatim>\<open>_request\<close>\<close>

text \<open>
  What \<^verbatim>\<open>s.request\<close> gives on an attempt: an exception of the transport, or a response.
  A server is a function from the number of the attempt (from 0) to that.
\<close>

datatype reply = Failed | Reply response

datatype event = Sent request | Slept int

text \<open>\<^verbatim>\<open>while tries is None or tries > 0\<close>\<close>

definition loop_cond :: "int option \<Rightarrow> bool" where
  "loop_cond t = (case t of None \<Rightarrow> True | Some n \<Rightarrow> 0 < n)"

text \<open>\<^verbatim>\<open>if tries: tries -= 1\<close>\<close>

definition decrement :: "int option \<Rightarrow> int option" where
  "decrement t = (case t of None \<Rightarrow> None | Some n \<Rightarrow> if n \<noteq> 0 then Some (n - 1) else Some n)"

text \<open>
  Line 138, \<^verbatim>\<open>raise TooManyRequests(r, js)\<close>: \<open>seen\<close> holds \<^verbatim>\<open>r\<close> and \<^verbatim>\<open>js\<close> once the loop
  body has assigned them.
\<close>

definition final_raise :: "(response \<times> json) option \<Rightarrow> error" where
  "final_raise seen =
     (case seen of
        None \<Rightarrow> UnboundLocalError ''r''
      | Some (r, js) \<Rightarrow> TooManyRequests r js)"

text \<open>
  Lines 98 to 138. The state of the loop is the remaining tries \<open>t\<close>, the number \<open>i\<close> of
  the attempt, the latest \<^verbatim>\<open>r\<close> and \<^verbatim>\<open>js\<close>, and the events so far. With \<^verbatim>\<open>tries = None\<close>
  the loop may run forever: the value is then \<open>None\<close>.
\<close>

partial_function (option) retry_loop ::
  "bool \<Rightarrow> int list \<Rightarrow> bool \<Rightarrow> (nat \<Rightarrow> reply) \<Rightarrow> request \<Rightarrow>
   int option \<Rightarrow> nat \<Rightarrow> (response \<times> json) option \<Rightarrow> event list \<Rightarrow>
   ((error + result) \<times> event list) option" where
  "retry_loop hr return_on raw srv rq t i seen evs =
     (if loop_cond t then
        (case srv i of
           Failed \<Rightarrow> Some (Inl ConnectionError, evs @ [Sent rq])
         | Reply r \<Rightarrow>
             (case r_json r of
                None \<Rightarrow> Some (Inl JSONDecodeError, evs @ [Sent rq])
              | Some js \<Rightarrow>
                  (case classify hr return_on raw r js of
                     Return v \<Rightarrow> Some (Inr v, evs @ [Sent rq])
                   | Raise e \<Rightarrow> Some (Inl e, evs @ [Sent rq])
                   | Retry n \<Rightarrow>
                       retry_loop hr return_on raw srv rq (decrement t) (Suc i) (Some (r, js))
                         (evs @ [Sent rq, Slept n]))))
      else Some (Inl (final_raise seen), evs))"

declare retry_loop.simps [code]

text \<open>\<^verbatim>\<open>_request(self, method, url, **kwargs)\<close> against a server.\<close>

definition request ::
  "client \<Rightarrow> string \<Rightarrow> string \<Rightarrow> kwargs \<Rightarrow> (nat \<Rightarrow> reply) \<Rightarrow> ((error + result) \<times> event list) option" where
  "request c method url kw srv =
     (case prepare c method url kw of
        Inl e \<Rightarrow> Some (Inl e, [])
      | Inr rq \<Rightarrow>
          retry_loop (handle_ratelimit c) (kw_return_on kw) (kw_raw kw) srv rq (tries c) 0 None [])"

section \<open>Sample values\<close>

text \<open>A client, a call and a server, used to run the results below on concrete inputs.\<close>

definition example_client :: client where
  "example_client = \<lparr>token = ''secret'', handle_ratelimit = True, tries = Some 2\<rparr>"

definition example_kwargs :: kwargs where
  "example_kwargs = \<lparr>kw_headers = Absent, kw_return_on = [], kw_raw = False,
     kw_no_url_regex = False, kw_rest = [(''params'', ''url=cat.png'')]\<rparr>"

definition example_request :: request where
  "example_request = \<lparr>rq_method = ''GET'', rq_url = ''https://api.openrobot.xyz/api/ocr'',
     rq_headers = [(''Authorization'', ''secret'')], rq_rest = [(''params'', ''url=cat.png'')]\<rparr>"

definition slow_down :: json where
  "slow_down = JObj [(''message'', JStr ''slow down'')]"

definition limited :: response where
  "limited = \<lparr>status_code = 429, headers = [(''Retry-After'', ''3'')], r_json = Some slow_down\<rparr>"


definition always :: "response \<Rightarrow> nat \<Rightarrow> reply" where
  "always r k = Reply r"

definition fine :: response where
  "fine = \<lparr>status_code = 200, headers = [], r_json = Some (JObj [(''text'', JStr ''hello'')])\<rparr>"

definition blocked :: response where
  "blocked = \<lparr>status_code = 403, headers = [], r_json = Some (JObj [(''message'', JStr ''no'')])\<rparr>"

definition bare_429 :: response where
  "bare_429 = \<lparr>status_code = 429, headers = [(''Content-Type'', ''application/json'')],
     r_json = Some slow_down\<rparr>"

definition caller_kwargs :: kwargs where
  "caller_kwargs = \<lparr>kw_headers = Dict [(''Authorization'', ''mine'')], kw_return_on = [],
     kw_raw = False, kw_no_url_regex = False, kw_rest = []\<rparr>"

definition skip_kwargs :: kwargs where
  "skip_kwargs = \<lparr>kw_headers = Absent, kw_return_on = [], kw_raw = False,
     kw_no_url_regex = True, kw_rest = []\<rparr>"

definition plain_kwargs :: kwargs where
  "plain_kwargs = \<lparr>kw_headers = Absent, kw_return_on = [], kw_raw = False,
     kw_no_url_regex = False, kw_rest = []\<rparr>"

definition sent_to :: "string \<Rightarrow> request" where
  "sent_to u = \<lparr>rq_method = ''GET'', rq_url = u, rq_headers = [(''Authorization'', ''secret'')],
     rq_rest = []\<rparr>"

definition rejected :: response where
  "rejected = \<lparr>status_code = 400, headers = [], r_json = Some (JObj [(''message'', JStr ''bad'')])\<rparr>"

definition broken :: response where
  "broken = \<lparr>status_code = 500, headers = [], r_json = Some JNull\<rparr>"

section \<open>Unfolding the loop\<close>

lemma retry_loop_exit:
  "\<not> loop_cond t \<Longrightarrow>
   retry_loop hr return_on raw srv rq t i seen evs = Some (Inl (final_raise seen), evs)"
  by (subst retry_loop.simps) simp

lemma retry_loop_return:
  "loop_cond t \<Longrightarrow> srv i = Reply r \<Longrightarrow> r_json r = Some js \<Longrightarrow>
   classify hr return_on raw r js = Return v \<Longrightarrow>
   retry_loop hr return_on raw srv rq t i seen evs = Some (Inr v, evs @ [Sent rq])"
  by (subst retry_loop.simps) simp

lemma retry_loop_raise:
  "loop_cond t \<Longrightarrow> srv i = Reply r \<Longrightarrow> r_json r = Some js \<Longrightarrow>
   classify hr return_on raw r js = Raise e \<Longrightarrow>
   retry_loop hr return_on raw srv rq t i seen evs = Some (Inl e, evs @ [Sent rq])"
  by (subst retry_loop.simps) simp





lemma request_enters_loop:
  "prepare c method url kw = Inr rq \<Longrightarrow>
   request c method url kw srv =
     retry_loop (handle_ratelimit c) (kw_return_on kw) (kw_raw kw) srv rq (tries c) 0 None []"
  by (simp add: request_def)

section \<open>Facts about the steps before the loop\<close>

lemma strip_api_target: "strip_target (''/api/'' @ e) = ''/'' @ e"
  by (simp add: strip_target_def startswith_def)

lemma no_match_slash: "\<not> url_regex_match (''/'' @ e)"
  by (simp add: url_regex_match_def startswith_def)

lemma merge_headers_plain:
  "h = Absent \<or> h = Dict [] \<or> (\<exists>b. h = NotADict b) \<Longrightarrow>
   merge_headers c h = Inr [(''Authorization'', token c)]"
  by (auto simp add: merge_headers_def arg_truthy_def is_dict_def get_authorization_headers_def)

lemma merge_headers_dict:
  "d \<noteq> [] \<Longrightarrow> merge_headers c (Dict d) = Inl (KeyError ''headers'')"
  by (simp add: merge_headers_def arg_truthy_def is_dict_def)

lemma retry_loop_events:
  assumes "retry_loop hr return_on raw srv rq t i seen evs = Some y"
  shows "\<exists>new. snd y = evs @ new \<and> (\<forall>e \<in> set new. e = Sent rq \<or> (\<exists>n. e = Slept n))"
proof (rule retry_loop.raw_induct[where P = "\<lambda>hr return_on raw srv rq t i seen evs y.
    \<exists>new. snd y = evs @ new \<and> (\<forall>e \<in> set new. e = Sent rq \<or> (\<exists>n. e = Slept n))", OF _ assms],
    goal_cases)
  case (1 f hr return_on raw srv rq t i seen evs y)
  show ?case
  proof (cases "loop_cond t")
    case False
    with 1(2) show ?thesis by auto
  next
    case True
    show ?thesis
    proof (cases "srv i")
      case Failed
      with True 1(2) show ?thesis by auto
    next
      case (Reply r)
      show ?thesis
      proof (cases "r_json r")
        case None
        with True Reply 1(2) show ?thesis by auto
      next
        case (Some js)
        show ?thesis
        proof (cases "classify hr return_on raw r js")
          case (Return v)
          with True Reply Some 1(2) show ?thesis by auto
        next
          case (Raise e)
          with True Reply Some 1(2) show ?thesis by auto
        next
          case (Retry n)
          with True Reply Some 1(2)
          have "f hr return_on raw srv rq (decrement t) (Suc i) (Some (r, js))
                  (evs @ [Sent rq, Slept n]) = Some y" by simp
          from 1(1)[OF this] obtain new where
            "snd y = (evs @ [Sent rq, Slept n]) @ new"
            "\<forall>e \<in> set new. e = Sent rq \<or> (\<exists>n. e = Slept n)" by blast
          then have "snd y = evs @ ([Sent rq, Slept n] @ new) \<and>
             (\<forall>e \<in> set ([Sent rq, Slept n] @ new). e = Sent rq \<or> (\<exists>n. e = Slept n))"
            by auto
          then show ?thesis by blast
        qed
      qed
    qed
  qed
qed

lemma request_sends_prepared:
  assumes "request c method url kw srv = Some (out, evs)" and "Sent rq' \<in> set evs"
  shows "prepare c method url kw = Inr rq'"
proof (cases "prepare c method url kw")
  case (Inl e)
  with assms show ?thesis by (simp add: request_def)
next
  case (Inr rq)
  with assms(1) have "retry_loop (handle_ratelimit c) (kw_return_on kw) (kw_raw kw) srv rq
      (tries c) 0 None [] = Some (out, evs)" by (simp add: request_def)
  from retry_loop_events[OF this] assms(2) have "rq' = rq" by auto
  with Inr show ?thesis by simp
qed

section \<open>Construction of the client\<close>

text \<open>
  Claim C9. A token argument that is \<^verbatim>\<open>None\<close> or empty, with no usable token from the local
  source either, makes the constructor raise \<^verbatim>\<open>NoTokenProvided\<close>. With the placeholder
  token \<^verbatim>\<open>I-Am-Testing\<close> and warnings not suppressed, the constructor emits the usage
  warning, succeeds, and the client stores that token.
\<close>

theorem init_token_rules:
  "(\<not> truthy tok \<and> \<not> truthy file_token \<longrightarrow>
      init tok ignore_warning hr tr file_token = Inl NoTokenProvided)
   \<and> init (Some ''I-Am-Testing'') False hr tr file_token =
      Inr (\<lparr>token = ''I-Am-Testing'', handle_ratelimit = hr, tries = tr\<rparr>, [testing_warning])"
  by (auto simp add: init_def truthy_def split: option.splits)

theorem init_token_rules_witness:
  "init None False True (Some 5) None = Inl NoTokenProvided
   \<and> init (Some []) False True (Some 5) (Some []) = Inl NoTokenProvided
   \<and> init (Some ''I-Am-Testing'') False True (Some 5) None =
      Inr (\<lparr>token = ''I-Am-Testing'', handle_ratelimit = True, tries = Some 5\<rparr>, [testing_warning])"
proof -
  have a: "\<not> truthy None \<and> \<not> truthy None" by (simp add: truthy_def)
  have b: "\<not> truthy (Some []) \<and> \<not> truthy (Some [])" by (simp add: truthy_def)
  from init_token_rules[of None None False True "Some 5"]
       init_token_rules[of "Some []" "Some []" False True "Some 5"] a b
  show ?thesis by simp
qed

section \<open>Headers of the request\<close>

text \<open>
  Claim C2, at a concrete call. The caller passes \<^verbatim>\<open>headers={'Authorization': 'mine'}\<close>.
  Line 76 pops the entry from \<^verbatim>\<open>kwargs\<close> (into \<^verbatim>\<open>hdr\<close>, which is not used again) and
  line 77 reads \<^verbatim>\<open>kwargs['headers']\<close>: the call raises \<^verbatim>\<open>KeyError\<close> while merging, the
  caller's header is lost, and nothing is sent.
\<close>

theorem caller_headers_raise_KeyError:
  "request example_client ''GET'' ''/api/ocr'' caller_kwargs (always fine) =
     Some (Inl (KeyError ''headers''), [])"
  by code_simp

text \<open>
  The same holds for every dictionary that is not empty, whatever the client, the target
  and the server.
\<close>

lemma nonempty_headers_raise_KeyError:
  "kw_headers kw = Dict d \<Longrightarrow> d \<noteq> [] \<Longrightarrow>
   request c method url kw srv = Some (Inl (KeyError ''headers''), [])"
  by (simp add: request_def prepare_def merge_headers_dict)

text \<open>
  The other branch (line 79) works: with no headers, an empty dictionary, or a value that
  is not a dictionary, every request that the call sends carries the header
  \<^verbatim>\<open>Authorization\<close> built from the client's token and no other header.
\<close>

lemma credential_header_sent:
  assumes "kw_headers kw = Absent \<or> kw_headers kw = Dict [] \<or> (\<exists>b. kw_headers kw = NotADict b)"
    and "request c method url kw srv = Some (out, evs)" and "Sent rq \<in> set evs"
  shows "rq_headers rq = [(''Authorization'', token c)]"
proof -
  have "merge_headers c (kw_headers kw) = Inr [(''Authorization'', token c)]"
    using assms(1) by (rule merge_headers_plain)
  moreover have "prepare c method url kw = Inr rq"
    using assms(2,3) by (rule request_sends_prepared)
  ultimately show ?thesis
    by (auto simp add: prepare_def split: sum.splits)
qed

section \<open>The URL of the request\<close>

text \<open>
  Claim C1, at concrete targets. An absolute URL on the allowed host is not used as it is:
  both slices cut into it, the pattern does not match what is left, and the base URL is put
  in front, so the request goes to a different URL. A URL on a foreign host is treated in
  the same way: no error, and a request is sent. With \<^verbatim>\<open>no_url_regex\<close> set the call raises
  the \<^verbatim>\<open>TypeError\<close> for a well-formed path, before any request.
\<close>

theorem absolute_url_not_validated:
  "request example_client ''GET'' ''https://api.openrobot.xyz/api/ocr'' plain_kwargs (always fine) =
     Some (Inr (Decoded (JObj [(''text'', JStr ''hello'')])),
           [Sent (sent_to ''https://api.openrobot.xyz/api://api.openrobot.xyz/api/ocr'')])
   \<and> request example_client ''GET'' ''https://evil.example/x'' plain_kwargs (always fine) =
     Some (Inr (Decoded (JObj [(''text'', JStr ''hello'')])),
           [Sent (sent_to ''https://api.openrobot.xyz/api://evil.example/x'')])
   \<and> request example_client ''GET'' ''/api/ocr'' skip_kwargs (always fine) =
     Some (Inl (TypeError ''URL is not a valid HTTP/HTTPs URL.''), [])"
  by code_simp

text \<open>
  Claim C3, at a concrete target. For the relative path \<^verbatim>\<open>api/ocr\<close> the test of line 83 is
  the wrong way round: the target has no leading slash, so its first character \<^verbatim>\<open>a\<close> is cut
  off; what is left does not begin with \<^verbatim>\<open>api/\<close>, so line 89 cuts off four more characters,
  and the URL of the request is \<^verbatim>\<open>https://api.openrobot.xyz/apicr\<close>, not
  \<^verbatim>\<open>https://api.openrobot.xyz/api/ocr\<close>.
\<close>

theorem slashless_path_not_canonical:
  "prepare example_client ''GET'' ''api/ocr'' plain_kwargs = Inr (sent_to ''https://api.openrobot.xyz/apicr'')"
  by code_simp

text \<open>
  The wrappers of this file pass targets that begin with \<^verbatim>\<open>/api/\<close>. For those the leading
  slash stays, the four characters \<^verbatim>\<open>/api\<close> are cut off, and the base URL is put in front.
\<close>

lemma api_path_canonical:
  assumes "merge_headers c (kw_headers kw) = Inr hs" and "\<not> kw_no_url_regex kw"
  shows "prepare c method (''/api/'' @ endpoint) kw =
        Inr \<lparr>rq_method = method, rq_url = ''https://api.openrobot.xyz/api/'' @ endpoint,
             rq_headers = hs, rq_rest = kw_rest kw\<rparr>"
  using assms no_match_slash[of endpoint] strip_api_target[of endpoint]
  by (simp add: prepare_def check_url_def base_url_def)

section \<open>The status of the response\<close>

text \<open>
  Claim C8. In any pass of the loop, a response whose status is a pass-through code, or
  lies in the range from 200 to 299, makes the call return at once: the response itself
  when \<^verbatim>\<open>raw\<close> is set, its decoded body otherwise. Nothing is asked of the status beyond
  that, so a pass-through code 403, 400, 500 or 429 returns as well, whatever the
  rate-limit setting.
\<close>

theorem pass_through_and_success_return:
  assumes "loop_cond t" and "srv i = Reply r" and "r_json r = Some js"
    and "status_code r \<in> set return_on \<or> (200 \<le> status_code r \<and> status_code r < 300)"
  shows "retry_loop hr return_on raw srv rq t i seen evs =
           Some (Inr (if raw then Raw r else Decoded js), evs @ [Sent rq])"
proof -
  have "classify hr return_on raw r js = Return (if raw then Raw r else Decoded js)"
    using assms(4) by (auto simp add: classify_def deliver_def)
  with assms(1-3) show ?thesis
    by (simp add: retry_loop_return[where srv = srv and i = i])
qed

theorem pass_through_and_success_return_witness:
  "retry_loop True [403] False (always blocked) example_request (Some 2) 0 None [] =
     Some (Inr (Decoded (JObj [(''message'', JStr ''no'')])), [Sent example_request])
   \<and> retry_loop True [] True (always fine) example_request None 0 None [] =
     Some (Inr (Raw fine), [Sent example_request])"
proof -
  have a: "loop_cond (Some 2)" and a': "loop_cond None" by (simp_all add: loop_cond_def)
  have b: "always blocked 0 = Reply blocked" and b': "always fine 0 = Reply fine"
    by (simp_all add: always_def)
  have c: "r_json blocked = Some (JObj [(''message'', JStr ''no'')])"
    and c': "r_json fine = Some (JObj [(''text'', JStr ''hello'')])"
    by (simp_all add: blocked_def fine_def)
  have d: "status_code blocked \<in> set [403] \<or> (200 \<le> status_code blocked \<and> status_code blocked < 300)"
    and d': "status_code fine \<in> set [] \<or> (200 \<le> status_code fine \<and> status_code fine < 300)"
    by (simp_all add: blocked_def fine_def)
  from pass_through_and_success_return[where srv = "always blocked" and i = 0 and hr = True
      and raw = False and rq = example_request and seen = None and evs = "[]", OF a b c d]
       pass_through_and_success_return[where srv = "always fine" and i = 0 and hr = True
      and raw = True and rq = example_request and seen = None and evs = "[]", OF a' b' c' d']
  show ?thesis by simp
qed

text \<open>
  Claim C7. In any pass of the loop, a response whose status is not a pass-through code
  makes the call raise \<^verbatim>\<open>Forbidden\<close> for 403, \<^verbatim>\<open>BadRequest\<close> for 400 and
  \<^verbatim>\<open>InternalServerError\<close> for 500, each with the response and its decoded body.
\<close>

theorem status_errors_carry_response_and_body:
  assumes "loop_cond t" and "srv i = Reply r" and "r_json r = Some js"
    and "status_code r \<notin> set return_on"
  shows "(status_code r = 403 \<longrightarrow>
            retry_loop hr return_on raw srv rq t i seen evs =
              Some (Inl (Forbidden r js), evs @ [Sent rq]))
       \<and> (status_code r = 400 \<longrightarrow>
            retry_loop hr return_on raw srv rq t i seen evs =
              Some (Inl (BadRequest r js), evs @ [Sent rq]))
       \<and> (status_code r = 500 \<longrightarrow>
            retry_loop hr return_on raw srv rq t i seen evs =
              Some (Inl (InternalServerError r js), evs @ [Sent rq]))"
proof (intro conjI impI)
  assume "status_code r = 403"
  with assms(4) have "classify hr return_on raw r js = Raise (Forbidden r js)"
    by (simp add: classify_def)
  with assms(1-3) show "retry_loop hr return_on raw srv rq t i seen evs =
      Some (Inl (Forbidden r js), evs @ [Sent rq])"
    by (simp add: retry_loop_raise[where srv = srv and i = i])
next
  assume "status_code r = 400"
  with assms(4) have "classify hr return_on raw r js = Raise (BadRequest r js)"
    by (simp add: classify_def)
  with assms(1-3) show "retry_loop hr return_on raw srv rq t i seen evs =
      Some (Inl (BadRequest r js), evs @ [Sent rq])"
    by (simp add: retry_loop_raise[where srv = srv and i = i])
next
  assume "status_code r = 500"
  with assms(4) have "classify hr return_on raw r js = Raise (InternalServerError r js)"
    by (simp add: classify_def)
  with assms(1-3) show "retry_loop hr return_on raw srv rq t i seen evs =
      Some (Inl (InternalServerError r js), evs @ [Sent rq])"
    by (simp add: retry_loop_raise[where srv = srv and i = i])
qed

theorem status_errors_carry_response_and_body_witness:
  "retry_loop True [] False (always blocked) example_request (Some 2) 0 None [] =
     Some (Inl (Forbidden blocked (JObj [(''message'', JStr ''no'')])), [Sent example_request])
   \<and> retry_loop True [] False (always rejected) example_request (Some 2) 0 None [] =
     Some (Inl (BadRequest rejected (JObj [(''message'', JStr ''bad'')])), [Sent example_request])
   \<and> retry_loop True [] False (always broken) example_request (Some 2) 0 None [] =
     Some (Inl (InternalServerError broken JNull), [Sent example_request])"
proof -
  have a: "loop_cond (Some 2)" by (simp add: loop_cond_def)
  have b: "always blocked 0 = Reply blocked" "always rejected 0 = Reply rejected"
    "always broken 0 = Reply broken" by (simp_all add: always_def)
  have c: "r_json blocked = Some (JObj [(''message'', JStr ''no'')])"
    "r_json rejected = Some (JObj [(''message'', JStr ''bad'')])" "r_json broken = Some JNull"
    and d: "status_code blocked = 403" "status_code rejected = 400" "status_code broken = 500"
    by (simp_all add: blocked_def rejected_def broken_def)
  have e: "status_code blocked \<notin> set ([] :: int list)"
    "status_code rejected \<notin> set ([] :: int list)" "status_code broken \<notin> set ([] :: int list)"
    by simp_all
  from status_errors_carry_response_and_body[where srv = "always blocked" and i = 0 and hr = True
      and raw = False and rq = example_request and seen = None and evs = "[]", OF a b(1) c(1) e(1)]
    status_errors_carry_response_and_body[where srv = "always rejected" and i = 0 and hr = True
      and raw = False and rq = example_request and seen = None and evs = "[]", OF a b(2) c(2) e(2)]
    status_errors_carry_response_and_body[where srv = "always broken" and i = 0 and hr = True
      and raw = False and rq = example_request and seen = None and evs = "[]", OF a b(3) c(3) e(3)]
    d
  show ?thesis by simp
qed

text \<open>
  Claim C6. In any pass of the loop, with rate-limit handling off: a response with status
  429 (not a pass-through code) makes the call raise \<^verbatim>\<open>TooManyRequests\<close> with that response
  and its decoded body. The events of that pass are the request alone: no sleep, no further
  attempt.
\<close>

theorem unhandled_429_raises_at_once:
  assumes "loop_cond t" and "srv i = Reply r" and "r_json r = Some js"
    and "status_code r = 429" and "429 \<notin> set return_on"
  shows "retry_loop False return_on raw srv rq t i seen evs =
           Some (Inl (TooManyRequests r js), evs @ [Sent rq])"
proof -
  have "classify False return_on raw r js = Raise (TooManyRequests r js)"
    using assms(4-5) by (simp add: classify_def handle_429_def)
  with assms(1-3) show ?thesis
    by (simp add: retry_loop_raise[where srv = srv and i = i])
qed

theorem unhandled_429_raises_at_once_witness:
  "retry_loop False [] False (always limited) example_request (Some 2) 0 None [] =
     Some (Inl (TooManyRequests limited slow_down), [Sent example_request])"
proof -
  have a: "loop_cond (Some 2)" by (simp add: loop_cond_def)
  have b: "always limited 0 = Reply limited" by (simp add: always_def)
  have c: "r_json limited = Some slow_down" and d: "status_code limited = 429"
    by (simp_all add: limited_def)
  have e: "429 \<notin> set ([] :: int list)" by simp
  from unhandled_429_raises_at_once[where srv = "always limited" and i = 0 and raw = False
      and rq = example_request and seen = None and evs = "[]", OF a b c d e]
  show ?thesis by simp
qed

text \<open>
  Claim C5. In any pass of the loop, with rate-limit handling on: a response with status
  429 (not a pass-through code) and no \<^verbatim>\<open>Retry-After\<close> header makes the call raise
  \<^verbatim>\<open>KeyError\<close> at once. The events of that pass are the request alone: no sleep, no
  further attempt.
\<close>

theorem missing_retry_after_raises_KeyError:
  assumes "loop_cond t" and "srv i = Reply r" and "r_json r = Some js"
    and "status_code r = 429" and "429 \<notin> set return_on"
    and "header_lookup (headers r) ''Retry-After'' = None"
  shows "retry_loop True return_on raw srv rq t i seen evs =
           Some (Inl (KeyError ''Retry-After header is not present.''), evs @ [Sent rq])"
proof -
  have "classify True return_on raw r js = Raise (KeyError ''Retry-After header is not present.'')"
    using assms(4-6) by (simp add: classify_def handle_429_def)
  with assms(1-3) show ?thesis
    by (simp add: retry_loop_raise[where srv = srv and i = i])
qed

theorem missing_retry_after_raises_KeyError_witness:
  "retry_loop True [] False (always bare_429) example_request (Some 2) 0 None [] =
     Some (Inl (KeyError ''Retry-After header is not present.''), [Sent example_request])"
proof -
  have a: "loop_cond (Some 2)" by (simp add: loop_cond_def)
  have b: "always bare_429 0 = Reply bare_429" by (simp add: always_def)
  have c: "r_json bare_429 = Some slow_down" and d: "status_code bare_429 = 429"
    by (simp_all add: bare_429_def)
  have e: "429 \<notin> set ([] :: int list)" by simp
  have f: "header_lookup (headers bare_429) ''Retry-After'' = None" by code_simp
  from missing_retry_after_raises_KeyError[where srv = "always bare_429" and i = 0 and raw = False
      and rq = example_request and seen = None and evs = "[]", OF a b c d e f]
  show ?thesis by simp
qed

section \<open>Rate limiting\<close>







section \<open>A client without tries\<close>

text \<open>
  Claim C10. When the client's \<^verbatim>\<open>tries\<close> is an integer that is zero or negative, and the
  steps before the loop raise nothing, the loop body never runs: no request is sent, and
  the \<^verbatim>\<open>raise\<close> after the loop fails on the unassigned variable \<^verbatim>\<open>r\<close> with
  \<^verbatim>\<open>UnboundLocalError\<close> (a \<^verbatim>\<open>NameError\<close>) in place of \<^verbatim>\<open>TooManyRequests\<close>.
\<close>

theorem no_tries_raises_name_error:
  assumes "prepare c method url kw = Inr rq" and "tries c = Some n" and "n \<le> 0"
  shows "request c method url kw srv = Some (Inl (UnboundLocalError ''r''), [])"
proof -
  have "\<not> loop_cond (Some n)" using assms(3) by (simp add: loop_cond_def)
  then show ?thesis
    by (simp add: request_def assms(1) assms(2) retry_loop_exit final_raise_def)
qed

theorem no_tries_raises_name_error_witness:
  "request (example_client\<lparr>tries := Some 0\<rparr>) ''GET'' ''/api/ocr'' example_kwargs (always limited) =
     Some (Inl (UnboundLocalError ''r''), [])"
proof -
  have a: "prepare (example_client\<lparr>tries := Some 0\<rparr>) ''GET'' ''/api/ocr'' example_kwargs =
      Inr example_request" by code_simp
  have b: "tries (example_client\<lparr>tries := Some 0\<rparr>) = Some 0" by simp
  from no_tries_raises_name_error[OF a b, of "always limited"]
  show ?thesis by simp
qed

end
